theory Spec2Isabelle
  imports Main
begin

section \<open>Errors and outcomes\<close>

text \<open>
  The status codes of \<^verbatim>\<open>google.golang.org/grpc/codes\<close>, in their numeric order.
\<close>

datatype code =
    OK | Canceled | Unknown | InvalidArgument | DeadlineExceeded | NotFound
  | AlreadyExists | PermissionDenied | ResourceExhausted | FailedPrecondition
  | Aborted | OutOfRange | Unimplemented | Internal | Unavailable | DataLoss
  | Unauthenticated

text \<open>
  Go's \<^verbatim>\<open>error\<close> values as far as the two files tell them apart: the sentinels
  \<^verbatim>\<open>io.EOF\<close>, \<^verbatim>\<open>grpc.ErrServerStopped\<close> and \<^verbatim>\<open>context.Canceled\<close>, a gRPC
  status error, an error that is only a message (\<^verbatim>\<open>fmt.Errorf\<close> without \<^verbatim>\<open>%w\<close>,
  \<^verbatim>\<open>errors.New\<close>, the errors of the libraries), and \<^verbatim>\<open>fmt.Errorf\<close> with \<^verbatim>\<open>%w\<close>,
  which keeps the wrapped error behind a message prefix.
\<close>

datatype err =
    EOF
  | ErrServerStopped
  | ContextCanceled
  | StatusError code string
  | ErrorString string
  | WrapError string err

text \<open>
  A call of the program ends in one of three ways: it returns a value, it panics (an
  index out of range, a nil pointer dereference), or it blocks forever.
\<close>

datatype 'a outcome = Returns 'a | Panics | Blocks

fun code_String :: "code \<Rightarrow> string" where
  "code_String OK = ''OK''"
| "code_String Canceled = ''Canceled''"
| "code_String Unknown = ''Unknown''"
| "code_String InvalidArgument = ''InvalidArgument''"
| "code_String DeadlineExceeded = ''DeadlineExceeded''"
| "code_String NotFound = ''NotFound''"
| "code_String AlreadyExists = ''AlreadyExists''"
| "code_String PermissionDenied = ''PermissionDenied''"
| "code_String ResourceExhausted = ''ResourceExhausted''"
| "code_String FailedPrecondition = ''FailedPrecondition''"
| "code_String Aborted = ''Aborted''"
| "code_String OutOfRange = ''OutOfRange''"
| "code_String Unimplemented = ''Unimplemented''"
| "code_String Internal = ''Internal''"
| "code_String Unavailable = ''Unavailable''"
| "code_String DataLoss = ''DataLoss''"
| "code_String Unauthenticated = ''Unauthenticated''"

text \<open>The method \<^verbatim>\<open>Error()\<close>: the message of an error.\<close>

fun Error :: "err \<Rightarrow> string" where
  "Error EOF = ''EOF''"
| "Error ErrServerStopped = ''grpc: the server has been stopped''"
| "Error ContextCanceled = ''context canceled''"
| "Error (StatusError c m) = ''rpc error: code = '' @ code_String c @ '' desc = '' @ m"
| "Error (ErrorString m) = m"
| "Error (WrapError p e) = p @ Error e"

text \<open>
  \<^verbatim>\<open>errors.Is(err, target)\<close> for a sentinel target: the error itself or an error
  somewhere down its chain of wrapped errors is the target.
\<close>

fun errors_Is :: "err \<Rightarrow> err \<Rightarrow> bool" where
  "errors_Is (WrapError p e) target = (WrapError p e = target \<or> errors_Is e target)"
| "errors_Is e target = (e = target)"

text \<open>
  \<^verbatim>\<open>status.Code(err)\<close> for a non-nil error: the code of a status error, also of a
  wrapped one, and \<^verbatim>\<open>codes.Unknown\<close> for an error that carries no status.
\<close>

fun status_Code :: "err \<Rightarrow> code" where
  "status_Code (StatusError c m) = c"
| "status_Code (WrapError p e) = status_Code e"
| "status_Code e = Unknown"

text \<open>The verb \<^verbatim>\<open>%d\<close> of \<^verbatim>\<open>fmt\<close> on a length: the decimal digits.\<close>

fun show_nat :: "nat \<Rightarrow> string" where
  "show_nat n =
     (if n < 10 then [''0123456789'' ! n]
      else show_nat (n div 10) @ [''0123456789'' ! (n mod 10)])"

declare show_nat.simps [simp del]

section \<open>The cluster of package capi\<close>

subsection \<open>Objects of the store and of the libraries\<close>

record NamespacedName =
  Namespace :: string
  Name :: string

text \<open>
  \<^verbatim>\<open>capiv1.Cluster\<close>: its own namespace and name, and \<^verbatim>\<open>Spec.ControlPlaneRef\<close>,
  a pointer to an object reference, which may be nil.
\<close>

record CapiCluster =
  cluster_Namespace :: string
  cluster_Name :: string
  ControlPlaneRef :: "NamespacedName option"

record TalosControlPlane =
  controlPlane_Selector :: string

record MachineDeployment =
  deployment_Selector :: string

record MachineAddress =
  address_Type :: string
  Address :: string

text \<open>
  \<^verbatim>\<open>capiv1.Machine\<close>: \<^verbatim>\<open>DeletionTimestamp\<close> is a pointer to a time (an instant
  counted from Go's zero time), \<^verbatim>\<open>Status.Phase\<close> is a string.
\<close>

record Machine =
  DeletionTimestamp :: "nat option"
  Phase :: string
  Addresses :: "MachineAddress list"

definition IsZero :: "nat option \<Rightarrow> bool" where
  "IsZero t = (case t of None \<Rightarrow> True | Some i \<Rightarrow> i = 0)"

definition MachinePhaseRunning :: string where
  "MachinePhaseRunning = ''Running''"

definition MachinePhaseProvisioned :: string where
  "MachinePhaseProvisioned = ''Provisioned''"

definition MachineInternalIP :: string where
  "MachineInternalIP = ''InternalIP''"

record Secret =
  Data :: "string \<rightharpoonup> string"

text \<open>
  \<^verbatim>\<open>clientconfig.Config\<close>: the name of the current context and the map of the
  contexts, from names to pointers.
\<close>

record ConfigContext =
  Endpoints :: "string list"

record Config =
  Context :: string
  Contexts :: "string \<rightharpoonup> ConfigContext"

datatype Selector = Selector string

datatype TalosClient = TalosClient Config

datatype Addr = Addr "nat list"

text \<open>
  The reader of the store, \<^verbatim>\<open>metalClient\<close>: \<^verbatim>\<open>Get\<close> by namespaced name for the
  three kinds that are read, \<^verbatim>\<open>List\<close> of machines by a label selector and of machine
  deployments by matching labels.
\<close>

record Reader =
  get_Cluster :: "NamespacedName \<Rightarrow> err + CapiCluster"
  get_TalosControlPlane :: "NamespacedName \<Rightarrow> err + TalosControlPlane"
  get_Secret :: "NamespacedName \<Rightarrow> err + Secret"
  list_Machines :: "Selector \<Rightarrow> err + Machine list"
  list_MachineDeployments :: "(string \<times> string) list \<Rightarrow> err + MachineDeployment list"

text \<open>
  The library functions that \<^verbatim>\<open>NewCluster\<close> calls: \<^verbatim>\<open>labels.Parse\<close>,
  \<^verbatim>\<open>clientconfig.FromBytes\<close> and \<^verbatim>\<open>talosclient.New\<close>.
\<close>

record Libraries =
  labels_Parse :: "string \<Rightarrow> err + Selector"
  FromBytes :: "string \<Rightarrow> err + Config"
  talosclient_New :: "Config \<Rightarrow> err + TalosClient"

record Cluster =
  name :: string
  controlPlaneNodes :: "string list"
  workerNodes :: "string list"
  bridgeIP :: Addr
  client :: TalosClient
  k8sProvider :: TalosClient

subsection \<open>NewCluster\<close>

text \<open>
  The closure \<^verbatim>\<open>resolveMachinesToIPs\<close>: the internal addresses of the machines that
  are not being deleted and are in phase Running or Provisioned, in order.
\<close>

definition internalIPs :: "MachineAddress list \<Rightarrow> string list" where
  "internalIPs as = map Address (filter (\<lambda>a. address_Type a = MachineInternalIP) as)"

fun resolveMachinesToIPs :: "Machine list \<Rightarrow> string list" where
  "resolveMachinesToIPs [] = []"
| "resolveMachinesToIPs (machine # items) =
     (if \<not> IsZero (DeletionTimestamp machine) then resolveMachinesToIPs items
      else if Phase machine \<noteq> MachinePhaseRunning \<and> Phase machine \<noteq> MachinePhaseProvisioned
        then resolveMachinesToIPs items
      else internalIPs (Addresses machine) @ resolveMachinesToIPs items)"

definition NewCluster ::
  "Libraries \<Rightarrow> Reader \<Rightarrow> string \<Rightarrow> Addr \<Rightarrow> (Cluster option \<times> err option) outcome" where
  "NewCluster lib metalClient clusterName bridge =
    (case get_Cluster metalClient \<lparr>Namespace = ''default'', Name = clusterName\<rparr> of
       Inl e \<Rightarrow> Returns (None, Some e)
     | Inr cluster \<Rightarrow>
    (case ControlPlaneRef cluster of
       None \<Rightarrow> Panics
     | Some ref \<Rightarrow>
    (case get_TalosControlPlane metalClient ref of
       Inl e \<Rightarrow> Returns (None, Some e)
     | Inr controlPlane \<Rightarrow>
    (case labels_Parse lib (controlPlane_Selector controlPlane) of
       Inl e \<Rightarrow> Returns (None, Some e)
     | Inr labelSelector \<Rightarrow>
    (case list_Machines metalClient labelSelector of
       Inl e \<Rightarrow> Returns (None, Some e)
     | Inr machines \<Rightarrow>
    if length machines < 1 then Returns (None, Some (ErrorString ''not enough machines found''))
    else
    (case get_Secret metalClient
            \<lparr>Namespace = cluster_Namespace cluster,
             Name = cluster_Name cluster @ ''-talosconfig''\<rparr> of
       Inl e \<Rightarrow> Returns (None, Some e)
     | Inr talosSecret \<Rightarrow>
    (case Data talosSecret ''talosconfig'' of
       None \<Rightarrow> Returns (None, Some (ErrorString
                 ''failed to find talosconfig data in the talosconfig secret''))
     | Some config \<Rightarrow>
    (case FromBytes lib config of
       Inl e \<Rightarrow> Returns (None, Some e)
     | Inr clientConfig \<Rightarrow>
    let controlPlaneNodes = resolveMachinesToIPs machines in
    if length controlPlaneNodes < 1
      then Returns (None, Some (ErrorString ''failed to find control plane nodes''))
    else
    (case list_MachineDeployments metalClient
            [(''cluster.x-k8s.io/cluster-name'', clusterName)] of
       Inl e \<Rightarrow> Returns (None, Some e)
     | Inr machineDeployments \<Rightarrow>
    if length machineDeployments \<noteq> 1
      then Returns (None, Some (ErrorString
             (''unexpected number of machine deployments: ''
                @ show_nat (length machineDeployments))))
    else
    (case labels_Parse lib (deployment_Selector (machineDeployments ! 0)) of
       Inl e \<Rightarrow> Returns (None, Some e)
     | Inr workerSelector \<Rightarrow>
    (case list_Machines metalClient workerSelector of
       Inl e \<Rightarrow> Returns (None, Some e)
     | Inr workerMachines \<Rightarrow>
    let workerNodes = resolveMachinesToIPs workerMachines in
    (case Contexts clientConfig (Context clientConfig) of
       None \<Rightarrow> Panics
     | Some ctx \<Rightarrow>
    let clientConfig' = clientConfig
          \<lparr>Contexts := (Contexts clientConfig)
             (Context clientConfig \<mapsto> ctx\<lparr>Endpoints := controlPlaneNodes\<rparr>)\<rparr> in
    (case talosclient_New lib clientConfig' of
       Inl e \<Rightarrow> Returns (None, Some e)
     | Inr talosClient \<Rightarrow>
       Returns (Some \<lparr>name = clusterName,
                      controlPlaneNodes = controlPlaneNodes,
                      workerNodes = workerNodes,
                      bridgeIP = bridge,
                      client = talosClient,
                      k8sProvider = talosClient\<rparr>, None))))))))))))))"

subsection \<open>A single health attempt\<close>

text \<open>
  \<^verbatim>\<open>time.Duration\<close> counts nanoseconds; the durations of the program are positive
  constants far below the range of its 64 bits.
\<close>

definition Second :: nat where
  "Second = 1000000000"

definition Minute :: nat where
  "Minute = 60 * Second"

record Metadata =
  metadata_Error :: string

text \<open>
  A progress message of the health check. Its metadata is a pointer and may be nil; the
  getters of the generated code are nil-safe and then answer the empty string.
\<close>

record HealthCheckProgress =
  progress_Metadata :: "Metadata option"
  Message :: string

definition GetMetadata :: "HealthCheckProgress \<Rightarrow> Metadata option" where
  "GetMetadata msg = progress_Metadata msg"

definition GetError :: "Metadata option \<Rightarrow> string" where
  "GetError m = (case m of None \<Rightarrow> [] | Some md \<Rightarrow> metadata_Error md)"

definition GetMessage :: "HealthCheckProgress \<Rightarrow> string" where
  "GetMessage msg = Message msg"

record ClusterInfo =
  ControlPlaneNodes :: "string list"
  WorkerNodes :: "string list"

text \<open>
  What the remote side does during one attempt: whether opening the stream fails,
  whether \<^verbatim>\<open>CloseSend\<close> fails, and what the successive calls of \<^verbatim>\<open>Recv\<close> answer,
  a message or an error. After the last listed answer \<^verbatim>\<open>Recv\<close> blocks.
\<close>

datatype recv = Recv_msg HealthCheckProgress | Recv_err err

record health_stream =
  open_error :: "err option"
  closeSend_error :: "err option"
  received :: "recv list"

text \<open>
  A call of \<^verbatim>\<open>ClusterHealthCheck\<close>: the node of \<^verbatim>\<open>WithNodes\<close>, the wait timeout
  and the cluster info.
\<close>

datatype rpc_call = ClusterHealthCheck string nat ClusterInfo

text \<open>
  What an attempt does: the RPCs it opens, what it writes to the standard error stream,
  and how it ends.
\<close>

record attempt =
  rpc_calls :: "rpc_call list"
  stderr_out :: string
  returned :: "err option outcome"

text \<open>The receive loop of \<^verbatim>\<open>health\<close>, with the lines it prints.\<close>

fun recv_loop :: "recv list \<Rightarrow> string \<times> err option outcome" where
  "recv_loop [] = ([], Blocks)"
| "recv_loop (Recv_err e # rest) =
     (if e = EOF \<or> status_Code e = Canceled then ([], Returns None)
      else ([], Returns (Some e)))"
| "recv_loop (Recv_msg msg # rest) =
     (if GetError (GetMetadata msg) \<noteq> []
      then ([], Returns (Some (ErrorString
              (''healthcheck error: '' @ GetError (GetMetadata msg)))))
      else (GetMessage msg @ [CHR 0x0A] @ fst (recv_loop rest), snd (recv_loop rest)))"

definition health :: "Cluster \<Rightarrow> health_stream \<Rightarrow> attempt" where
  "health cluster s =
    (if length (controlPlaneNodes cluster) \<le> 0
     then \<lparr>rpc_calls = [], stderr_out = [], returned = Panics\<rparr>
     else
       let call = ClusterHealthCheck (controlPlaneNodes cluster ! 0) (3 * Minute)
                    \<lparr>ControlPlaneNodes = controlPlaneNodes cluster,
                     WorkerNodes = workerNodes cluster\<rparr>
       in (case open_error s of
             Some e \<Rightarrow> \<lparr>rpc_calls = [call], stderr_out = [], returned = Returns (Some e)\<rparr>
           | None \<Rightarrow>
          (case closeSend_error s of
             Some e \<Rightarrow> \<lparr>rpc_calls = [call], stderr_out = [], returned = Returns (Some e)\<rparr>
           | None \<Rightarrow>
             \<lparr>rpc_calls = [call],
              stderr_out = fst (recv_loop (received s)),
              returned = snd (recv_loop (received s))\<rparr>)))"

subsection \<open>An example store\<close>

definition example_machine :: "string \<Rightarrow> string \<Rightarrow> Machine" where
  "example_machine phase ip =
     \<lparr>DeletionTimestamp = None, Phase = phase,
      Addresses = [\<lparr>address_Type = ''Hostname'', Address = ''node''\<rparr>,
                   \<lparr>address_Type = ''InternalIP'', Address = ip\<rparr>]\<rparr>"

definition example_config :: Config where
  "example_config =
     \<lparr>Context = ''admin'', Contexts = [''admin'' \<mapsto> \<lparr>Endpoints = []\<rparr>]\<rparr>"

definition example_lib :: Libraries where
  "example_lib =
     \<lparr>labels_Parse = (\<lambda>s. if s = [] then Inl (ErrorString ''empty selector'')
                            else Inr (Selector s)),
      FromBytes = (\<lambda>b. if b = ''cfg'' then Inr example_config
                         else Inl (ErrorString ''bad talosconfig'')),
      talosclient_New = (\<lambda>c. Inr (TalosClient c))\<rparr>"

text \<open>
  A store with one cluster \<open>c1\<close>, whose control-plane machines, worker machines and
  machine deployments are the three arguments.
\<close>

definition example_reader ::
  "Machine list \<Rightarrow> Machine list \<Rightarrow> MachineDeployment list \<Rightarrow> Reader" where
  "example_reader cps workers deployments =
     \<lparr>get_Cluster = (\<lambda>k. if Name k = ''c1'' \<and> Namespace k = ''default''
          then Inr \<lparr>cluster_Namespace = ''default'', cluster_Name = ''c1'',
                    ControlPlaneRef = Some \<lparr>Namespace = ''default'', Name = ''c1-cp''\<rparr>\<rparr>
          else Inl (ErrorString ''cluster not found'')),
      get_TalosControlPlane = (\<lambda>k. if Name k = ''c1-cp'' \<and> Namespace k = ''default''
          then Inr \<lparr>controlPlane_Selector = ''cp''\<rparr>
          else Inl (ErrorString ''control plane not found'')),
      get_Secret = (\<lambda>k. if Name k = ''c1-talosconfig'' \<and> Namespace k = ''default''
          then Inr \<lparr>Data = [''talosconfig'' \<mapsto> ''cfg'']\<rparr>
          else Inl (ErrorString ''secret not found'')),
      list_Machines = (\<lambda>sel. if sel = Selector ''cp'' then Inr cps
          else if sel = Selector ''md'' then Inr workers
          else Inr []),
      list_MachineDeployments = (\<lambda>ls. Inr deployments)\<rparr>"

text \<open>The same store when the talosconfig secret of the cluster is missing.\<close>

definition example_reader_without_secret ::
  "Machine list \<Rightarrow> Machine list \<Rightarrow> MachineDeployment list \<Rightarrow> Reader" where
  "example_reader_without_secret cps workers deployments =
     (example_reader cps workers deployments)
       \<lparr>get_Secret := (\<lambda>k. Inl (StatusError NotFound ''secret not found''))\<rparr>"

definition example_cluster :: Cluster where
  "example_cluster =
     \<lparr>name = ''c1'', controlPlaneNodes = [''172.24.0.2'', ''172.24.0.3''],
      workerNodes = [''172.24.0.4''], bridgeIP = Addr [172, 24, 0, 1],
      client = TalosClient example_config, k8sProvider = TalosClient example_config\<rparr>"

definition example_progress :: "string \<Rightarrow> string \<Rightarrow> HealthCheckProgress" where
  "example_progress m e =
     \<lparr>progress_Metadata = (if e = [] then None else Some \<lparr>metadata_Error = e\<rparr>),
      Message = m\<rparr>"

subsection \<open>The retried health check\<close>

text \<open>
  Modelled from the spec: the retry wrapper of the library \<^verbatim>\<open>go-retry\<close>
  (\<^verbatim>\<open>retry.Constant(...).Retry\<close> and \<^verbatim>\<open>retry.ExpectedError\<close>), whose source is not
  in the repository. The spec: the wrapper runs the attempt repeatedly over a fixed total
  time budget with a fixed pacing interval between attempts; an error classified as
  retryable leads to another attempt, a non-retryable error ends the loop, and the
  exhaustion of the total time budget surfaces as a hard failure; success of an attempt
  ends the loop with no error.

  Time is counted in nanoseconds from the call. The attempts are given by a function
  from the number of the attempt to how long it takes and how it ends. After a retryable
  error the loop waits for the pacing interval; when the budget ends before the wait
  does, the loop gives up. A pacing interval of zero is no ticker period and panics.
\<close>

datatype attempt_error = Retryable err | NonRetryable err

datatype retry_result = Success | TimedOut | NonRetryableError err

definition ExpectedError :: "err option \<Rightarrow> attempt_error option" where
  "ExpectedError e = (case e of None \<Rightarrow> None | Some x \<Rightarrow> Some (Retryable x))"

function retry_loop ::
  "nat \<Rightarrow> nat \<Rightarrow> (nat \<Rightarrow> nat \<times> attempt_error option outcome) \<Rightarrow> nat \<Rightarrow> nat
     \<Rightarrow> (nat \<times> retry_result) outcome" where
  "retry_loop budget units f i now =
     (if units = 0 then Panics
      else (case snd (f i) of
        Blocks \<Rightarrow> Blocks
      | Panics \<Rightarrow> Panics
      | Returns None \<Rightarrow> Returns (now + fst (f i), Success)
      | Returns (Some (NonRetryable e)) \<Rightarrow> Returns (now + fst (f i), NonRetryableError e)
      | Returns (Some (Retryable e)) \<Rightarrow>
          if now + fst (f i) + units < budget
          then retry_loop budget units f (Suc i) (now + fst (f i) + units)
          else Returns (max budget (now + fst (f i)), TimedOut)))"
  by pat_completeness auto
termination
  by (relation "measure (\<lambda>(budget, units, f, i, now). budget - now)") auto

declare retry_loop.simps [simp del]

definition Retry ::
  "nat \<Rightarrow> nat \<Rightarrow> (nat \<Rightarrow> nat \<times> attempt_error option outcome)
     \<Rightarrow> (nat \<times> retry_result) outcome" where
  "Retry budget units f = retry_loop budget units f 0 0"

text \<open>
  \<^verbatim>\<open>Health\<close>: the retry wrapper with a budget of five minutes and a pacing of ten
  seconds around \<^verbatim>\<open>retry.ExpectedError(cluster.health(ctx))\<close>. The remote side
  gives, for every attempt, how long the attempt takes and what the stream answers.
  The result is the time of the return and \<open>Success\<close> for nil.
\<close>

definition Health ::
  "Cluster \<Rightarrow> (nat \<Rightarrow> nat \<times> health_stream) \<Rightarrow> (nat \<times> retry_result) outcome" where
  "Health cluster remote =
     Retry (5 * Minute) (10 * Second)
       (\<lambda>i. (fst (remote i),
              map_outcome ExpectedError (returned (health cluster (snd (remote i))))))"

definition example_remote :: "nat \<Rightarrow> nat \<times> health_stream" where
  "example_remote i =
     (if i = 0
      then (20 * Second, \<lparr>open_error = None, closeSend_error = None,
              received = [Recv_msg (example_progress ''waiting for etcd'' []),
                          Recv_msg (example_progress [] ''etcd is not healthy'')]\<rparr>)
      else (30 * Second, \<lparr>open_error = None, closeSend_error = None,
              received = [Recv_msg (example_progress ''waiting for etcd'' []),
                          Recv_err EOF]\<rparr>))"

text \<open>A remote side on which every attempt fails after 100 seconds.\<close>

definition example_failing_remote :: "nat \<Rightarrow> nat \<times> health_stream" where
  "example_failing_remote i =
     (100 * Second, \<lparr>open_error = Some (StatusError Unavailable ''connection refused''),
        closeSend_error = None, received = []\<rparr>)"

section \<open>The events sink of package main\<close>

subsection \<open>The gRPC server\<close>

text \<open>
  The part of the state of a \<^verbatim>\<open>grpc.Server\<close> that its two ways of stopping tell
  apart: whether it listens, and the RPCs that are in flight, have run to their end, or
  were cancelled. As the library documents them, \<^verbatim>\<open>Stop\<close> closes the listeners and
  all connections at once and cancels the active RPCs; \<^verbatim>\<open>GracefulStop\<close> stops
  accepting and returns when the pending RPCs have finished.
\<close>

record Server =
  listening :: bool
  active :: "nat list"
  finished :: "nat list"
  cancelled :: "nat list"

definition Stop :: "Server \<Rightarrow> Server" where
  "Stop s = s\<lparr>listening := False, active := [], cancelled := cancelled s @ active s\<rparr>"

definition GracefulStop :: "Server \<Rightarrow> Server" where
  "GracefulStop s = s\<lparr>listening := False, active := [], finished := finished s @ active s\<rparr>"

subsection \<open>run and main\<close>

datatype Prefix = Prefix "nat list" nat

text \<open>
  What \<^verbatim>\<open>run\<close> does to the outside, in order: the call of \<^verbatim>\<open>net.Listen\<close> with the
  address, the adapter built with the negative filter, the three tasks started in the
  group, and the calls that stop the server.
\<close>

datatype event =
    Listen string
  | NewAdapter "Prefix list"
  | Go_annotator_Run
  | Go_Serve
  | Go_watcher
  | Call_Stop
  | Call_GracefulStop

fun server_after :: "event list \<Rightarrow> Server \<Rightarrow> Server" where
  "server_after [] s = s"
| "server_after (Call_Stop # es) s = server_after es (Stop s)"
| "server_after (Call_GracefulStop # es) s = server_after es (GracefulStop s)"
| "server_after (e # es) s = server_after es s"

text \<open>
  What \<^verbatim>\<open>run\<close> meets: whether \<^verbatim>\<open>zap.NewProduction\<close>, \<^verbatim>\<open>net.Listen\<close> and
  \<^verbatim>\<open>getMetalClient\<close> fail, the parser \<^verbatim>\<open>netip.ParsePrefix\<close>, the constant
  \<^verbatim>\<open>siderolink.EventsSinkPort\<close>, whether an interrupt or termination signal arrives,
  how \<^verbatim>\<open>annotator.Run\<close> and \<^verbatim>\<open>s.Serve\<close> end, and which of the two ends first.
\<close>

record environment =
  NewProduction_error :: "err option"
  ParsePrefix :: "string \<Rightarrow> err + Prefix"
  EventsSinkPort :: nat
  Listen_error :: "err option"
  getMetalClient_error :: "err option"
  signal :: bool
  annotator_Run :: "err option outcome"
  Serve :: "err option outcome"
  Serve_returns_first :: bool

text \<open>The loop of \<^verbatim>\<open>run\<close> over \<^verbatim>\<open>negativeAddressFilter\<close>.\<close>

fun parse_loop ::
  "(string \<Rightarrow> err + Prefix) \<Rightarrow> string list \<Rightarrow> Prefix list \<Rightarrow> err + Prefix list" where
  "parse_loop P [] negativeFilter = Inr negativeFilter"
| "parse_loop P (prefixStr # rest) negativeFilter =
     (if prefixStr = ''-'' then parse_loop P rest negativeFilter
      else (case P prefixStr of
              Inl e \<Rightarrow> Inl e
            | Inr prefix \<Rightarrow> parse_loop P rest (negativeFilter @ [prefix])))"

text \<open>
  The context of the group is done when the signal arrives or when a task of the group
  has returned an error.
\<close>

definition failed :: "err option outcome \<Rightarrow> bool" where
  "failed r = (case r of Returns (Some e) \<Rightarrow> True | _ \<Rightarrow> False)"

definition ctx_Done :: "environment \<Rightarrow> bool" where
  "ctx_Done env = (signal env \<or> failed (annotator_Run env) \<or> failed (Serve env))"

text \<open>
  The third task of the group: it waits for the context to be done, calls \<^verbatim>\<open>s.Stop()\<close>
  and returns nil.
\<close>

definition watcher :: "environment \<Rightarrow> event list \<times> err option outcome" where
  "watcher env = (if ctx_Done env then ([Call_Stop], Returns None) else ([], Blocks))"

text \<open>
  \<^verbatim>\<open>eg.Wait()\<close> on the results of the tasks in the order in which they end: it waits
  for all of them and returns the first error that is not nil.
\<close>

fun Wait :: "err option outcome list \<Rightarrow> err option outcome" where
  "Wait [] = Returns None"
| "Wait (r # rs) =
     (case r of
        Panics \<Rightarrow> Panics
      | Blocks \<Rightarrow> (case Wait rs of Panics \<Rightarrow> Panics | _ \<Rightarrow> Blocks)
      | Returns None \<Rightarrow> Wait rs
      | Returns (Some e) \<Rightarrow>
          (case Wait rs of Returns x \<Rightarrow> Returns (Some e) | Panics \<Rightarrow> Panics | Blocks \<Rightarrow> Blocks))"

text \<open>
  The last statement of \<^verbatim>\<open>run\<close>: the error of the group is returned when it is not
  nil, is not \<^verbatim>\<open>grpc.ErrServerStopped\<close> and is \<^verbatim>\<open>context.Canceled\<close>; otherwise
  \<^verbatim>\<open>run\<close> returns nil.
\<close>

definition final_error :: "err option \<Rightarrow> err option" where
  "final_error r =
     (case r of
        None \<Rightarrow> None
      | Some err \<Rightarrow>
          if \<not> errors_Is err ErrServerStopped \<and> errors_Is err ContextCanceled
          then Some err else None)"

definition run :: "environment \<Rightarrow> string list \<Rightarrow> event list \<times> err option outcome" where
  "run env negativeAddressFilter =
    (case NewProduction_error env of
       Some e \<Rightarrow> ([], Returns (Some (WrapError ''failed to initialize logger: '' e)))
     | None \<Rightarrow>
    (case parse_loop (ParsePrefix env) negativeAddressFilter [] of
       Inl e \<Rightarrow> ([], Returns (Some e))
     | Inr negativeFilter \<Rightarrow>
    let address = '':'' @ show_nat (EventsSinkPort env) in
    (case Listen_error env of
       Some e \<Rightarrow> ([Listen address],
                  Returns (Some (WrapError ''error listening for gRPC API: '' e)))
     | None \<Rightarrow>
    (case getMetalClient_error env of
       Some e \<Rightarrow> ([Listen address],
                  Returns (Some (WrapError ''error getting metal client: '' e)))
     | None \<Rightarrow>
       ([Listen address, NewAdapter negativeFilter, Go_annotator_Run, Go_Serve, Go_watcher]
          @ fst (watcher env),
        map_outcome final_error
          (Wait (if Serve_returns_first env
                 then [Serve env, annotator_Run env, snd (watcher env)]
                 else [annotator_Run env, Serve env, snd (watcher env)])))))))"

text \<open>
  \<^verbatim>\<open>main\<close>, after the flags are parsed into \<^verbatim>\<open>negativeAddressFilter\<close>: what it
  writes to the standard error stream and the exit status of the process.
\<close>

record exit =
  stderr :: string
  status :: nat

definition main :: "environment \<Rightarrow> string list \<Rightarrow> exit outcome" where
  "main env negativeAddressFilter =
     (case snd (run env negativeAddressFilter) of
        Returns (Some err) \<Rightarrow> Returns \<lparr>stderr = ''error: '' @ Error err, status = 1\<rparr>
      | Returns None \<Rightarrow> Returns \<lparr>stderr = [], status = 0\<rparr>
      | Panics \<Rightarrow> Panics
      | Blocks \<Rightarrow> Blocks)"

definition example_environment :: environment where
  "example_environment =
     \<lparr>NewProduction_error = None,
      ParsePrefix = (\<lambda>s. if s = ''10.0.0.0/8'' then Inr (Prefix [10, 0, 0, 0] 8)
                          else if s = ''192.168.0.0/16'' then Inr (Prefix [192, 168, 0, 0] 16)
                          else Inl (ErrorString (''netip.ParsePrefix('' @ s @ ''): no slash''))),
      EventsSinkPort = 4002,
      Listen_error = None,
      getMetalClient_error = None,
      signal = True,
      annotator_Run = Returns None,
      Serve = Returns None,
      Serve_returns_first = True\<rparr>"

section \<open>Properties of the cluster\<close>

lemma recv_loop_prefix:
  "\<forall>m\<in>set msgs. GetError (GetMetadata m) = [] \<Longrightarrow>
   snd (recv_loop (map Recv_msg msgs @ rest)) = snd (recv_loop rest)"
  by (induction msgs) simp_all

lemma health_returned:
  "controlPlaneNodes cluster \<noteq> [] \<Longrightarrow> open_error s = None \<Longrightarrow> closeSend_error s = None \<Longrightarrow>
   returned (health cluster s) = snd (recv_loop (received s))"
  by (simp add: health_def Let_def)

lemma NewCluster_nonempty:
  "NewCluster lib metalClient clusterName bridge = Returns (Some c, e) \<Longrightarrow>
   controlPlaneNodes c \<noteq> []"
  by (auto simp: NewCluster_def Let_def split: sum.splits option.splits if_splits)

lemma recv_loop_no_panic: "snd (recv_loop rs) \<noteq> Panics"
  by (induction rs rule: recv_loop.induct) simp_all

lemma health_panics_iff:
  "returned (health cluster s) = Panics \<longleftrightarrow> controlPlaneNodes cluster = []"
  by (simp add: health_def Let_def recv_loop_no_panic split: option.splits)

lemma internalIPs_empty_iff:
  "internalIPs as = [] \<longleftrightarrow> (\<forall>a\<in>set as. address_Type a \<noteq> MachineInternalIP)"
  by (simp add: internalIPs_def filter_empty_conv)

text \<open>
  The machines resolve to no endpoint exactly when no machine that is not being deleted
  and is in phase Running or Provisioned has an internal address.
\<close>

lemma resolveMachinesToIPs_empty_iff:
  "resolveMachinesToIPs machines = [] \<longleftrightarrow>
     (\<forall>m\<in>set machines. IsZero (DeletionTimestamp m) \<longrightarrow>
        Phase m = MachinePhaseRunning \<or> Phase m = MachinePhaseProvisioned \<longrightarrow>
        (\<forall>a\<in>set (Addresses m). address_Type a \<noteq> MachineInternalIP))"
  by (induction machines) (auto simp: internalIPs_empty_iff)

lemma example_NewCluster:
  "NewCluster example_lib
     (example_reader [example_machine ''Running'' ''172.24.0.2''] []
        [\<lparr>deployment_Selector = ''md''\<rparr>])
     ''c1'' b
   = Returns (Some \<lparr>name = ''c1'', controlPlaneNodes = [''172.24.0.2''], workerNodes = [],
        bridgeIP = b,
        client = TalosClient (example_config
          \<lparr>Contexts := [''admin'' \<mapsto> \<lparr>Endpoints = [''172.24.0.2'']\<rparr>]\<rparr>),
        k8sProvider = TalosClient (example_config
          \<lparr>Contexts := [''admin'' \<mapsto> \<lparr>Endpoints = [''172.24.0.2'']\<rparr>]\<rparr>)\<rparr>, None)"
  by (simp add: NewCluster_def Let_def example_reader_def example_lib_def example_machine_def
        example_config_def IsZero_def internalIPs_def MachineInternalIP_def
        MachinePhaseRunning_def MachinePhaseProvisioned_def)

subsection \<open>The receive loop of an attempt\<close>

text \<open>
  Claim C3. Let the stream of an attempt answer some messages without an error field and
  then \<open>r\<close>. When \<open>r\<close> is the end of the stream (\<^verbatim>\<open>io.EOF\<close>) or an error with status
  Canceled, the attempt returns nil. When \<open>r\<close> is a message with a non-empty error
  field, the attempt returns an error at once, whatever follows: the healthcheck error
  with that field. When \<open>r\<close> is any other error of \<^verbatim>\<open>Recv\<close>, the attempt returns it
  as it is.
\<close>

theorem health_stream_termination:
  assumes cp: "controlPlaneNodes cluster \<noteq> []"
    and op: "open_error s = None" and cl: "closeSend_error s = None"
    and quiet: "\<forall>m\<in>set msgs. GetError (GetMetadata m) = []"
    and rcv: "received s = map Recv_msg msgs @ r # rest"
  shows "(r = Recv_err e \<and> (e = EOF \<or> status_Code e = Canceled)
            \<longrightarrow> returned (health cluster s) = Returns None)
       \<and> (r = Recv_msg m \<and> GetError (GetMetadata m) \<noteq> []
            \<longrightarrow> returned (health cluster s) =
                Returns (Some (ErrorString
                  (''healthcheck error: '' @ GetError (GetMetadata m)))))
       \<and> (r = Recv_err e \<and> e \<noteq> EOF \<and> status_Code e \<noteq> Canceled
            \<longrightarrow> returned (health cluster s) = Returns (Some e))"
proof -
  have "returned (health cluster s) = snd (recv_loop (r # rest))"
    using health_returned [OF cp op cl] recv_loop_prefix [OF quiet] rcv by simp
  then show ?thesis by auto
qed

theorem health_stream_termination_witness:
  "returned (health example_cluster \<lparr>open_error = None, closeSend_error = None,
      received = [Recv_msg (example_progress ''waiting for etcd'' []),
                  Recv_err (StatusError Canceled ''context canceled'')]\<rparr>) = Returns None
   \<and> returned (health example_cluster \<lparr>open_error = None, closeSend_error = None,
      received = [Recv_msg (example_progress ''waiting for etcd'' []),
                  Recv_msg (example_progress ''etcd'' ''etcd is not healthy''),
                  Recv_err EOF]\<rparr>)
       = Returns (Some (ErrorString ''healthcheck error: etcd is not healthy''))
   \<and> returned (health example_cluster \<lparr>open_error = None, closeSend_error = None,
      received = [Recv_msg (example_progress ''waiting for etcd'' []),
                  Recv_err (StatusError Unavailable ''connection refused'')]\<rparr>)
       = Returns (Some (StatusError Unavailable ''connection refused''))"
  using
    health_stream_termination [of example_cluster
      "\<lparr>open_error = None, closeSend_error = None,
        received = [Recv_msg (example_progress ''waiting for etcd'' []),
                    Recv_err (StatusError Canceled ''context canceled'')]\<rparr>"
      "[example_progress ''waiting for etcd'' []]"
      "Recv_err (StatusError Canceled ''context canceled'')" "[]"
      "StatusError Canceled ''context canceled''"]
    health_stream_termination [of example_cluster
      "\<lparr>open_error = None, closeSend_error = None,
        received = [Recv_msg (example_progress ''waiting for etcd'' []),
                    Recv_msg (example_progress ''etcd'' ''etcd is not healthy''),
                    Recv_err EOF]\<rparr>"
      "[example_progress ''waiting for etcd'' []]"
      "Recv_msg (example_progress ''etcd'' ''etcd is not healthy'')" "[Recv_err EOF]"
      EOF "example_progress ''etcd'' ''etcd is not healthy''"]
    health_stream_termination [of example_cluster
      "\<lparr>open_error = None, closeSend_error = None,
        received = [Recv_msg (example_progress ''waiting for etcd'' []),
                    Recv_err (StatusError Unavailable ''connection refused'')]\<rparr>"
      "[example_progress ''waiting for etcd'' []]"
      "Recv_err (StatusError Unavailable ''connection refused'')" "[]"
      "StatusError Unavailable ''connection refused''"]
  by (simp add: example_cluster_def example_progress_def GetError_def GetMetadata_def)

subsection \<open>The RPC of an attempt\<close>

text \<open>
  Claim C8. An attempt on a cluster with a control-plane endpoint opens exactly one
  streaming health-check RPC: it is sent to the first control-plane endpoint,
  \<^verbatim>\<open>controlPlaneNodes[0]\<close>, and its cluster info holds the whole list of control-plane
  endpoints and the whole list of worker endpoints.
\<close>

theorem health_one_rpc:
  "controlPlaneNodes cluster \<noteq> [] \<Longrightarrow>
   rpc_calls (health cluster s) =
     [ClusterHealthCheck (controlPlaneNodes cluster ! 0) (3 * Minute)
        \<lparr>ControlPlaneNodes = controlPlaneNodes cluster, WorkerNodes = workerNodes cluster\<rparr>]"
  by (simp add: health_def Let_def split: option.splits)

theorem health_one_rpc_witness:
  "rpc_calls (health example_cluster
      \<lparr>open_error = None, closeSend_error = None, received = [Recv_err EOF]\<rparr>) =
     [ClusterHealthCheck ''172.24.0.2'' (3 * Minute)
        \<lparr>ControlPlaneNodes = [''172.24.0.2'', ''172.24.0.3''],
         WorkerNodes = [''172.24.0.4'']\<rparr>]"
  using health_one_rpc [of example_cluster
      "\<lparr>open_error = None, closeSend_error = None, received = [Recv_err EOF]\<rparr>"]
  by (simp add: example_cluster_def)

subsection \<open>Construction of the cluster\<close>

text \<open>
  Claim C4, as stated, fails: the error need not be the one about control-plane nodes.
  With one control-plane machine in phase Pending, which resolves to no endpoint, and
  the talosconfig secret missing, \<^verbatim>\<open>NewCluster\<close> returns the error of the store; with
  no control-plane machine at all it returns \<open>not enough machines found\<close>. Both are
  returned before the endpoints are resolved.
\<close>

theorem NewCluster_no_control_plane_counterexample:
  "resolveMachinesToIPs [example_machine ''Pending'' ''172.24.0.2''] = []
   \<and> NewCluster example_lib
        (example_reader_without_secret [example_machine ''Pending'' ''172.24.0.2''] [] [])
        ''c1'' (Addr [172, 24, 0, 1])
      = Returns (None, Some (StatusError NotFound ''secret not found''))
   \<and> resolveMachinesToIPs [] = []
   \<and> NewCluster example_lib (example_reader [] [] []) ''c1'' (Addr [172, 24, 0, 1])
      = Returns (None, Some (ErrorString ''not enough machines found''))"
  by (simp add: NewCluster_def Let_def example_reader_without_secret_def example_reader_def
        example_lib_def example_machine_def MachinePhaseRunning_def MachinePhaseProvisioned_def)

text \<open>
  Claim C4, amended. Let the control-plane machines of the cluster, as the store lists
  them, resolve to no endpoint. Then \<^verbatim>\<open>NewCluster\<close> returns a nil cluster together
  with an error, and no cluster. The error is \<open>failed to find control plane nodes\<close>
  when the machine list is not empty and the talosconfig is read and parsed, so that the
  check of the endpoints is reached; it is \<open>not enough machines found\<close> when the list
  is empty, and otherwise the error of the step that fails before the check: reading the
  talosconfig secret, finding its key, parsing it. Consequently every cluster that
  \<^verbatim>\<open>NewCluster\<close> returns has a control-plane endpoint.
\<close>

theorem NewCluster_no_control_plane:
  assumes "get_Cluster metalClient \<lparr>Namespace = ''default'', Name = clusterName\<rparr> = Inr cluster"
    and "ControlPlaneRef cluster = Some ref"
    and "get_TalosControlPlane metalClient ref = Inr controlPlane"
    and "labels_Parse lib (controlPlane_Selector controlPlane) = Inr labelSelector"
    and "list_Machines metalClient labelSelector = Inr machines"
    and "resolveMachinesToIPs machines = []"
  shows "(\<exists>e. NewCluster lib metalClient clusterName bridge = Returns (None, Some e))
       \<and> (machines \<noteq> []
            \<and> get_Secret metalClient \<lparr>Namespace = cluster_Namespace cluster,
                  Name = cluster_Name cluster @ ''-talosconfig''\<rparr> = Inr talosSecret
            \<and> Data talosSecret ''talosconfig'' = Some config
            \<and> FromBytes lib config = Inr clientConfig
          \<longrightarrow> NewCluster lib metalClient clusterName bridge =
                Returns (None, Some (ErrorString ''failed to find control plane nodes'')))
       \<and> (\<forall>lib' metalClient' clusterName' bridge' c e.
            NewCluster lib' metalClient' clusterName' bridge' = Returns (Some c, e)
            \<longrightarrow> controlPlaneNodes c \<noteq> [])
       \<and> (machines = []
          \<longrightarrow> NewCluster lib metalClient clusterName bridge =
                Returns (None, Some (ErrorString ''not enough machines found'')))
       \<and> (machines \<noteq> []
            \<and> get_Secret metalClient \<lparr>Namespace = cluster_Namespace cluster,
                  Name = cluster_Name cluster @ ''-talosconfig''\<rparr> = Inl secretError
          \<longrightarrow> NewCluster lib metalClient clusterName bridge = Returns (None, Some secretError))
       \<and> (machines \<noteq> []
            \<and> get_Secret metalClient \<lparr>Namespace = cluster_Namespace cluster,
                  Name = cluster_Name cluster @ ''-talosconfig''\<rparr> = Inr talosSecret
            \<and> Data talosSecret ''talosconfig'' = None
          \<longrightarrow> NewCluster lib metalClient clusterName bridge =
                Returns (None, Some (ErrorString
                  ''failed to find talosconfig data in the talosconfig secret'')))
       \<and> (machines \<noteq> []
            \<and> get_Secret metalClient \<lparr>Namespace = cluster_Namespace cluster,
                  Name = cluster_Name cluster @ ''-talosconfig''\<rparr> = Inr talosSecret
            \<and> Data talosSecret ''talosconfig'' = Some config
            \<and> FromBytes lib config = Inl configError
          \<longrightarrow> NewCluster lib metalClient clusterName bridge = Returns (None, Some configError))"
proof (intro conjI)
  show "\<exists>e. NewCluster lib metalClient clusterName bridge = Returns (None, Some e)"
    using assms by (simp add: NewCluster_def Let_def split: sum.splits option.splits)
next
  show "machines \<noteq> []
            \<and> get_Secret metalClient \<lparr>Namespace = cluster_Namespace cluster,
                  Name = cluster_Name cluster @ ''-talosconfig''\<rparr> = Inr talosSecret
            \<and> Data talosSecret ''talosconfig'' = Some config
            \<and> FromBytes lib config = Inr clientConfig
          \<longrightarrow> NewCluster lib metalClient clusterName bridge =
                Returns (None, Some (ErrorString ''failed to find control plane nodes''))"
    using assms by (simp add: NewCluster_def Let_def)
next
  show "\<forall>lib' metalClient' clusterName' bridge' c e.
            NewCluster lib' metalClient' clusterName' bridge' = Returns (Some c, e)
            \<longrightarrow> controlPlaneNodes c \<noteq> []"
    using NewCluster_nonempty by blast
next
  show "machines = []
          \<longrightarrow> NewCluster lib metalClient clusterName bridge =
                Returns (None, Some (ErrorString ''not enough machines found''))"
    using assms by (simp add: NewCluster_def Let_def)
next
  show "machines \<noteq> []
            \<and> get_Secret metalClient \<lparr>Namespace = cluster_Namespace cluster,
                  Name = cluster_Name cluster @ ''-talosconfig''\<rparr> = Inl secretError
          \<longrightarrow> NewCluster lib metalClient clusterName bridge = Returns (None, Some secretError)"
    using assms by (simp add: NewCluster_def Let_def)
next
  show "machines \<noteq> []
            \<and> get_Secret metalClient \<lparr>Namespace = cluster_Namespace cluster,
                  Name = cluster_Name cluster @ ''-talosconfig''\<rparr> = Inr talosSecret
            \<and> Data talosSecret ''talosconfig'' = None
          \<longrightarrow> NewCluster lib metalClient clusterName bridge =
                Returns (None, Some (ErrorString
                  ''failed to find talosconfig data in the talosconfig secret''))"
    using assms by (simp add: NewCluster_def Let_def)
next
  show "machines \<noteq> []
            \<and> get_Secret metalClient \<lparr>Namespace = cluster_Namespace cluster,
                  Name = cluster_Name cluster @ ''-talosconfig''\<rparr> = Inr talosSecret
            \<and> Data talosSecret ''talosconfig'' = Some config
            \<and> FromBytes lib config = Inl configError
          \<longrightarrow> NewCluster lib metalClient clusterName bridge = Returns (None, Some configError)"
    using assms by (simp add: NewCluster_def Let_def)
qed

theorem NewCluster_no_control_plane_witness:
  "NewCluster example_lib
     (example_reader [example_machine ''Pending'' ''172.24.0.2''] [] [])
     ''c1'' (Addr [172, 24, 0, 1])
   = Returns (None, Some (ErrorString ''failed to find control plane nodes''))"
  using NewCluster_no_control_plane
    [where metalClient = "example_reader [example_machine ''Pending'' ''172.24.0.2''] [] []"
       and clusterName = "''c1''" and lib = example_lib
       and cluster = "\<lparr>cluster_Namespace = ''default'', cluster_Name = ''c1'',
                    ControlPlaneRef = Some \<lparr>Namespace = ''default'', Name = ''c1-cp''\<rparr>\<rparr>"
       and ref = "\<lparr>Namespace = ''default'', Name = ''c1-cp''\<rparr>"
       and controlPlane = "\<lparr>controlPlane_Selector = ''cp''\<rparr>"
       and labelSelector = "Selector ''cp''"
       and machines = "[example_machine ''Pending'' ''172.24.0.2'']"
       and talosSecret = "\<lparr>Data = [''talosconfig'' \<mapsto> ''cfg'']\<rparr>"
       and config = "''cfg''" and clientConfig = example_config
       and secretError = EOF and configError = EOF
       and bridge = "Addr [172, 24, 0, 1]"]
  by (simp add: example_reader_def example_lib_def example_machine_def
        MachinePhaseRunning_def MachinePhaseProvisioned_def)





text \<open>
  Claim C10. For every cluster that \<^verbatim>\<open>NewCluster\<close> returns, the index 0 that an
  attempt reads in \<^verbatim>\<open>controlPlaneNodes\<close> is in bounds, and the attempt does not
  panic, whatever the remote side answers.
\<close>

theorem health_index_in_bounds:
  "NewCluster lib metalClient clusterName bridge = Returns (Some c, e) \<Longrightarrow>
   0 < length (controlPlaneNodes c) \<and> returned (health c s) \<noteq> Panics"
  using NewCluster_nonempty [of lib metalClient clusterName bridge c e]
  by (simp add: health_panics_iff)

theorem health_index_in_bounds_witness:
  "\<exists>c. NewCluster example_lib
          (example_reader [example_machine ''Running'' ''172.24.0.2''] []
             [\<lparr>deployment_Selector = ''md''\<rparr>])
          ''c1'' (Addr [172, 24, 0, 1]) = Returns (Some c, None)
      \<and> 0 < length (controlPlaneNodes c)
      \<and> returned (health c
           \<lparr>open_error = None, closeSend_error = None, received = [Recv_err EOF]\<rparr>) \<noteq> Panics"
  using health_index_in_bounds [OF example_NewCluster [of "Addr [172, 24, 0, 1]"],
      of "\<lparr>open_error = None, closeSend_error = None, received = [Recv_err EOF]\<rparr>"]
    example_NewCluster [of "Addr [172, 24, 0, 1]"]
  by blast

subsection \<open>The retried health check\<close>

lemma ExpectedError_simps [simp]:
  "ExpectedError None = None"
  "ExpectedError (Some x) = Some (Retryable x)"
  by (simp_all add: ExpectedError_def)

lemma map_outcome_ExpectedError [simp]:
  "map_outcome ExpectedError r \<noteq> Returns (Some (NonRetryable e))"
  "map_outcome ExpectedError r = Returns None \<longleftrightarrow> r = Returns None"
  "map_outcome ExpectedError r = Panics \<longleftrightarrow> r = Panics"
  by (cases r; auto simp: ExpectedError_def split: option.splits)+

lemma retry_loop_again:
  "0 < units \<Longrightarrow> snd (f i) = Returns (Some (Retryable e)) \<Longrightarrow>
   now + fst (f i) + units < budget \<Longrightarrow>
   retry_loop budget units f i now
     = retry_loop budget units f (Suc i) (now + fst (f i) + units)"
  by (subst retry_loop.simps) simp

lemma retry_loop_retryable:
  "\<forall>j e. snd (f j) \<noteq> Returns (Some (NonRetryable e)) \<Longrightarrow>
   retry_loop budget units f i now \<noteq> Returns (t, NonRetryableError e)"
proof (induction budget units f i now rule: retry_loop.induct)
  case (1 budget units f i now)
  then show ?case
    by (subst retry_loop.simps)
       (auto split: outcome.splits option.splits attempt_error.splits)
qed

lemma retry_loop_timeout:
  "retry_loop budget units f i now = Returns (t, TimedOut) \<Longrightarrow> budget \<le> t"
proof (induction budget units f i now rule: retry_loop.induct)
  case (1 budget units f i now)
  show ?case
  proof (cases "units \<noteq> 0 \<and> (\<exists>e. snd (f i) = Returns (Some (Retryable e)))
                  \<and> now + fst (f i) + units < budget")
    case True
    then obtain e where e: "snd (f i) = Returns (Some (Retryable e))" by blast
    have "retry_loop budget units f (Suc i) (now + fst (f i) + units) = Returns (t, TimedOut)"
      using retry_loop_again [of units f i e now budget] True e "1.prems" by simp
    then show ?thesis using "1.IH" True e by blast
  next
    case False
    with "1.prems" show ?thesis
      by (subst (asm) retry_loop.simps)
         (auto split: outcome.splits option.splits attempt_error.splits if_splits)
  qed
qed

lemma retry_loop_success_only:
  "retry_loop budget units f i now = Returns (t, Success) \<Longrightarrow>
   \<exists>k. snd (f k) = Returns None"
proof (induction budget units f i now rule: retry_loop.induct)
  case (1 budget units f i now)
  show ?case
  proof (cases "units \<noteq> 0 \<and> (\<exists>e. snd (f i) = Returns (Some (Retryable e)))
                  \<and> now + fst (f i) + units < budget")
    case True
    then obtain e where e: "snd (f i) = Returns (Some (Retryable e))" by blast
    have "retry_loop budget units f (Suc i) (now + fst (f i) + units) = Returns (t, Success)"
      using retry_loop_again [of units f i e now budget] True e "1.prems" by simp
    then show ?thesis using "1.IH" True e by blast
  next
    case False
    with "1.prems" show ?thesis
      by (subst (asm) retry_loop.simps)
         (auto split: outcome.splits option.splits attempt_error.splits if_splits)
  qed
qed

lemma retry_loop_no_panic:
  "0 < units \<Longrightarrow> \<forall>j. snd (f j) \<noteq> Panics \<Longrightarrow> retry_loop budget units f i now \<noteq> Panics"
proof (induction budget units f i now rule: retry_loop.induct)
  case (1 budget units f i now)
  then show ?case
    by (subst retry_loop.simps)
       (auto split: outcome.splits option.splits attempt_error.splits)
qed

text \<open>
  When the attempts \<open>i, \<dots>, i + k - 1\<close> fail, the attempt \<open>i + k\<close> succeeds and the waits
  after the failures end within the budget, the loop returns nil when that attempt ends.
\<close>

lemma retry_loop_success:
  "0 < units \<Longrightarrow>
   \<forall>j<k. \<exists>e. snd (f (i + j)) = Returns (Some (Retryable e)) \<Longrightarrow>
   snd (f (i + k)) = Returns None \<Longrightarrow>
   now + (\<Sum>j<k. fst (f (i + j)) + units) < budget \<Longrightarrow>
   retry_loop budget units f i now =
     Returns (now + (\<Sum>j<k. fst (f (i + j)) + units) + fst (f (i + k)), Success)"
proof (induction k arbitrary: i now)
  case 0
  then show ?case by (subst retry_loop.simps) simp
next
  case (Suc k)
  from Suc.prems(2) obtain e where e: "snd (f i) = Returns (Some (Retryable e))"
    by (metis add.right_neutral zero_less_Suc)
  have split: "(\<Sum>j<Suc k. fst (f (i + j)) + units)
      = fst (f i) + units + (\<Sum>j<k. fst (f (Suc i + j)) + units)"
    unfolding sum.lessThan_Suc_shift by simp
  have step: "now + fst (f i) + units < budget"
    using Suc.prems(4) split by simp
  have later: "\<forall>j<k. \<exists>e. snd (f (Suc i + j)) = Returns (Some (Retryable e))"
    using Suc.prems(2) by (metis Suc_less_eq add_Suc_shift)
  have last: "snd (f (Suc i + k)) = Returns None"
    using Suc.prems(3) by simp
  have budget': "now + fst (f i) + units + (\<Sum>j<k. fst (f (Suc i + j)) + units) < budget"
    using Suc.prems(4) split by simp
  have "retry_loop budget units f i now
      = retry_loop budget units f (Suc i) (now + fst (f i) + units)"
    using Suc.prems(1) e step by (rule retry_loop_again)
  also have "\<dots> = Returns (now + fst (f i) + units
      + (\<Sum>j<k. fst (f (Suc i + j)) + units) + fst (f (Suc i + k)), Success)"
    by (rule Suc.IH [OF Suc.prems(1) later last budget'])
  finally show ?case using split by simp
qed

lemma retry_loop_all_fail:
  "0 < units \<Longrightarrow> \<forall>j. \<exists>e. snd (f j) = Returns (Some (Retryable e)) \<Longrightarrow>
   \<exists>t. retry_loop budget units f i now = Returns (t, TimedOut)"
proof (induction budget units f i now rule: retry_loop.induct)
  case (1 budget units f i now)
  from "1.prems"(2) obtain e where e: "snd (f i) = Returns (Some (Retryable e))" by blast
  show ?case
  proof (cases "now + fst (f i) + units < budget")
    case True
    have "retry_loop budget units f i now
        = retry_loop budget units f (Suc i) (now + fst (f i) + units)"
      using "1.prems"(1) e True by (rule retry_loop_again)
    moreover have "\<exists>t. retry_loop budget units f (Suc i) (now + fst (f i) + units)
        = Returns (t, TimedOut)"
      using "1.IH" "1.prems" e True by blast
    ultimately show ?thesis by simp
  next
    case False
    then show ?thesis using "1.prems"(1) e by (subst retry_loop.simps) simp
  qed
qed

text \<open>
  When the attempts \<open>i, \<dots>, i + k\<close> fail, the attempt \<open>i + k\<close> is started within the
  budget and the wait after it would end at or after the budget, the loop gives up: at
  the end of the budget, or at the end of that attempt when it is later.
\<close>

lemma retry_loop_timeout_at:
  "0 < units \<Longrightarrow>
   \<forall>j\<le>k. \<exists>e. snd (f (i + j)) = Returns (Some (Retryable e)) \<Longrightarrow>
   now + (\<Sum>j<k. fst (f (i + j)) + units) < budget \<Longrightarrow>
   budget \<le> now + (\<Sum>j<k. fst (f (i + j)) + units) + fst (f (i + k)) + units \<Longrightarrow>
   retry_loop budget units f i now =
     Returns (max budget (now + (\<Sum>j<k. fst (f (i + j)) + units) + fst (f (i + k))),
              TimedOut)"
proof (induction k arbitrary: i now)
  case 0
  from "0.prems"(2) obtain e where e: "snd (f i) = Returns (Some (Retryable e))"
    by (metis add.right_neutral le0)
  show ?case using "0.prems"(1,4) e by (subst retry_loop.simps) simp
next
  case (Suc k)
  from Suc.prems(2) obtain e where e: "snd (f i) = Returns (Some (Retryable e))"
    by (metis add.right_neutral le0)
  have split: "(\<Sum>j<Suc k. fst (f (i + j)) + units)
      = fst (f i) + units + (\<Sum>j<k. fst (f (Suc i + j)) + units)"
    unfolding sum.lessThan_Suc_shift by simp
  have step: "now + fst (f i) + units < budget"
    using Suc.prems(3) split by simp
  have later: "\<forall>j\<le>k. \<exists>e. snd (f (Suc i + j)) = Returns (Some (Retryable e))"
    using Suc.prems(2) by (metis Suc_le_mono add_Suc_shift)
  have within: "now + fst (f i) + units + (\<Sum>j<k. fst (f (Suc i + j)) + units) < budget"
    using Suc.prems(3) split by simp
  have over: "budget \<le> now + fst (f i) + units + (\<Sum>j<k. fst (f (Suc i + j)) + units)
      + fst (f (Suc i + k)) + units"
    using Suc.prems(4) split by simp
  have "retry_loop budget units f i now
      = retry_loop budget units f (Suc i) (now + fst (f i) + units)"
    using Suc.prems(1) e step by (rule retry_loop_again)
  also have "\<dots> = Returns (max budget (now + fst (f i) + units
      + (\<Sum>j<k. fst (f (Suc i + j)) + units) + fst (f (Suc i + k))), TimedOut)"
    by (rule Suc.IH [OF Suc.prems(1) later within over])
  finally show ?case using split by simp
qed

text \<open>
  Claim C2. \<^verbatim>\<open>Health\<close> runs the attempt under the retry wrapper with a total budget of
  five minutes and a pacing of ten seconds. Every error of an attempt is retryable:
  \<^verbatim>\<open>Health\<close> never ends with a non-retryable error. It reports a failure only as the
  timeout, and then the five minutes are over. When the attempts before the \<open>k\<close>-th
  return errors, the \<open>k\<close>-th returns nil, and the waits of ten seconds after the failed
  attempts end within the five minutes, \<^verbatim>\<open>Health\<close> returns nil at the end of that
  attempt; and it returns nil only when some attempt did. On a cluster with a
  control-plane endpoint it does not panic. When the attempts up to the \<open>k\<close>-th all
  return errors, the \<open>k\<close>-th is started within the five minutes and the wait of ten
  seconds after it would end at or after the five minutes, \<^verbatim>\<open>Health\<close> returns the
  timeout: at five minutes, or at the end of that attempt when it is later. When every
  attempt returns an error, \<^verbatim>\<open>Health\<close> returns the timeout.
\<close>

theorem Health_retry:
  "(\<forall>t e. Health cluster remote \<noteq> Returns (t, NonRetryableError e))
   \<and> (\<forall>t. Health cluster remote = Returns (t, TimedOut) \<longrightarrow> 5 * Minute \<le> t)
   \<and> (\<forall>k. (\<forall>j<k. \<exists>e. returned (health cluster (snd (remote j))) = Returns (Some e))
          \<and> returned (health cluster (snd (remote k))) = Returns None
          \<and> (\<Sum>j<k. fst (remote j) + 10 * Second) < 5 * Minute
        \<longrightarrow> Health cluster remote =
              Returns ((\<Sum>j<k. fst (remote j) + 10 * Second) + fst (remote k), Success))
   \<and> (\<forall>t. Health cluster remote = Returns (t, Success)
        \<longrightarrow> (\<exists>k. returned (health cluster (snd (remote k))) = Returns None))
   \<and> (controlPlaneNodes cluster \<noteq> [] \<longrightarrow> Health cluster remote \<noteq> Panics)
   \<and> (\<forall>k. (\<forall>j\<le>k. \<exists>e. returned (health cluster (snd (remote j))) = Returns (Some e))
          \<and> (\<Sum>j<k. fst (remote j) + 10 * Second) < 5 * Minute
          \<and> 5 * Minute \<le> (\<Sum>j<k. fst (remote j) + 10 * Second) + fst (remote k) + 10 * Second
        \<longrightarrow> Health cluster remote =
              Returns (max (5 * Minute)
                         ((\<Sum>j<k. fst (remote j) + 10 * Second) + fst (remote k)),
                       TimedOut))
   \<and> ((\<forall>j. \<exists>e. returned (health cluster (snd (remote j))) = Returns (Some e))
        \<longrightarrow> (\<exists>t. Health cluster remote = Returns (t, TimedOut)))"
proof (intro conjI allI impI)
  fix t e
  show "Health cluster remote \<noteq> Returns (t, NonRetryableError e)"
    unfolding Health_def Retry_def by (rule retry_loop_retryable) simp
next
  fix t
  assume "Health cluster remote = Returns (t, TimedOut)"
  then show "5 * Minute \<le> t"
    unfolding Health_def Retry_def by (rule retry_loop_timeout)
next
  fix k
  let ?f = "\<lambda>i. (fst (remote i),
              map_outcome ExpectedError (returned (health cluster (snd (remote i)))))"
  assume a: "(\<forall>j<k. \<exists>e. returned (health cluster (snd (remote j))) = Returns (Some e))
          \<and> returned (health cluster (snd (remote k))) = Returns None
          \<and> (\<Sum>j<k. fst (remote j) + 10 * Second) < 5 * Minute"
  have units: "0 < 10 * Second" by (simp add: Second_def)
  have failed: "\<forall>j<k. \<exists>e. snd (?f (0 + j)) = Returns (Some (Retryable e))"
  proof (intro allI impI)
    fix j assume "j < k"
    with a obtain e where "returned (health cluster (snd (remote j))) = Returns (Some e)"
      by blast
    then show "\<exists>e. snd (?f (0 + j)) = Returns (Some (Retryable e))" by simp
  qed
  have last: "snd (?f (0 + k)) = Returns None"
    using a by simp
  have budget: "0 + (\<Sum>j<k. fst (?f (0 + j)) + 10 * Second) < 5 * Minute"
    using a by simp
  show "Health cluster remote =
          Returns ((\<Sum>j<k. fst (remote j) + 10 * Second) + fst (remote k), Success)"
    unfolding Health_def Retry_def
    using retry_loop_success [OF units failed last budget] by simp
next
  fix t
  assume "Health cluster remote = Returns (t, Success)"
  then have "\<exists>k. snd (fst (remote k),
      map_outcome ExpectedError (returned (health cluster (snd (remote k))))) = Returns None"
    unfolding Health_def Retry_def by (rule retry_loop_success_only)
  then show "\<exists>k. returned (health cluster (snd (remote k))) = Returns None"
    by simp
next
  assume "controlPlaneNodes cluster \<noteq> []"
  then have "\<forall>j. snd (fst (remote j),
      map_outcome ExpectedError (returned (health cluster (snd (remote j))))) \<noteq> Panics"
    by (simp add: health_panics_iff)
  moreover have "0 < 10 * Second" by (simp add: Second_def)
  ultimately show "Health cluster remote \<noteq> Panics"
    unfolding Health_def Retry_def by (rule retry_loop_no_panic [rotated])
next
  fix k
  let ?f = "\<lambda>i. (fst (remote i),
              map_outcome ExpectedError (returned (health cluster (snd (remote i)))))"
  assume a: "(\<forall>j\<le>k. \<exists>e. returned (health cluster (snd (remote j))) = Returns (Some e))
          \<and> (\<Sum>j<k. fst (remote j) + 10 * Second) < 5 * Minute
          \<and> 5 * Minute \<le> (\<Sum>j<k. fst (remote j) + 10 * Second) + fst (remote k) + 10 * Second"
  have units: "0 < 10 * Second" by (simp add: Second_def)
  have failed: "\<forall>j\<le>k. \<exists>e. snd (?f (0 + j)) = Returns (Some (Retryable e))"
  proof (intro allI impI)
    fix j assume "j \<le> k"
    with a obtain e where "returned (health cluster (snd (remote j))) = Returns (Some e)"
      by blast
    then show "\<exists>e. snd (?f (0 + j)) = Returns (Some (Retryable e))" by simp
  qed
  have within: "0 + (\<Sum>j<k. fst (?f (0 + j)) + 10 * Second) < 5 * Minute"
    using a by simp
  have over: "5 * Minute \<le> 0 + (\<Sum>j<k. fst (?f (0 + j)) + 10 * Second)
      + fst (?f (0 + k)) + 10 * Second"
    using a by simp
  show "Health cluster remote =
          Returns (max (5 * Minute)
                     ((\<Sum>j<k. fst (remote j) + 10 * Second) + fst (remote k)), TimedOut)"
    unfolding Health_def Retry_def
    using retry_loop_timeout_at [OF units failed within over] by simp
next
  let ?f = "\<lambda>i. (fst (remote i),
              map_outcome ExpectedError (returned (health cluster (snd (remote i)))))"
  assume a: "\<forall>j. \<exists>e. returned (health cluster (snd (remote j))) = Returns (Some e)"
  have units: "0 < 10 * Second" by (simp add: Second_def)
  have failed: "\<forall>j. \<exists>e. snd (?f j) = Returns (Some (Retryable e))"
  proof
    fix j
    from a obtain e where "returned (health cluster (snd (remote j))) = Returns (Some e)"
      by blast
    then show "\<exists>e. snd (?f j) = Returns (Some (Retryable e))" by simp
  qed
  show "\<exists>t. Health cluster remote = Returns (t, TimedOut)"
    unfolding Health_def Retry_def
    using units failed by (rule retry_loop_all_fail)
qed

theorem Health_retry_witness:
  "Health example_cluster example_remote = Returns (60 * Second, Success)
   \<and> Health example_cluster example_failing_remote = Returns (320 * Second, TimedOut)"
proof
  show "Health example_cluster example_remote = Returns (60 * Second, Success)"
    using Health_retry [of example_cluster example_remote, THEN conjunct2, THEN conjunct2,
        THEN conjunct1, rule_format, of 1]
    by (simp add: example_remote_def example_cluster_def health_def Let_def
          example_progress_def GetError_def GetMetadata_def Second_def Minute_def)
next
  show "Health example_cluster example_failing_remote = Returns (320 * Second, TimedOut)"
    using Health_retry [of example_cluster example_failing_remote, THEN conjunct2,
        THEN conjunct2, THEN conjunct2, THEN conjunct2, THEN conjunct2, THEN conjunct1,
        rule_format, of 2]
    by (simp add: example_failing_remote_def example_cluster_def health_def Let_def
          Second_def Minute_def lessThan_Suc numeral_2_eq_2)
qed


section \<open>Properties of the events sink\<close>

subsection \<open>The negative address filter\<close>

lemma parse_loop_Inr_iff:
  "parse_loop P xs acc = Inr ps \<longleftrightarrow>
     (\<forall>s\<in>set xs. s \<noteq> ''-'' \<longrightarrow> (\<exists>p. P s = Inr p))
     \<and> ps = acc @ map (projr \<circ> P) (filter (\<lambda>s. s \<noteq> ''-'') xs)"
proof (induction xs arbitrary: acc)
  case Nil
  then show ?case by auto
next
  case (Cons x xs)
  show ?case
  proof (cases "x = ''-''")
    case True
    then show ?thesis using Cons.IH [of acc] by simp
  next
    case False
    show ?thesis
    proof (cases "P x")
      case (Inl e)
      then show ?thesis using False by auto
    next
      case (Inr p)
      then show ?thesis using False Cons.IH [of "acc @ [p]"] by auto
    qed
  qed
qed

lemma parse_loop_cong:
  "\<forall>s\<in>set xs. s \<noteq> ''-'' \<longrightarrow> P s = Q s \<Longrightarrow> parse_loop P xs acc = parse_loop Q xs acc"
  by (induction xs arbitrary: acc) (auto split: sum.splits)

text \<open>The loop ends with the error of the first entry that is not \<open>-\<close> and does not parse.\<close>

lemma parse_loop_find:
  "find (\<lambda>x. x \<noteq> ''-'' \<and> isl (P x)) xs = Some s0 \<Longrightarrow>
   parse_loop P xs acc = Inl (projl (P s0))"
proof (induction xs arbitrary: acc)
  case Nil
  then show ?case by simp
next
  case (Cons x xs)
  show ?case
  proof (cases "x \<noteq> ''-'' \<and> isl (P x)")
    case True
    then have "s0 = x" using Cons.prems by simp
    then show ?thesis using True by (cases "P x") simp_all
  next
    case False
    then have "find (\<lambda>x. x \<noteq> ''-'' \<and> isl (P x)) xs = Some s0"
      using Cons.prems by (auto split: if_splits)
    then have "\<And>acc'. parse_loop P xs acc' = Inl (projl (P s0))"
      by (rule Cons.IH)
    then show ?thesis using False by (cases "P x") simp_all
  qed
qed

lemma find_malformed:
  "s \<in> set xs \<Longrightarrow> s \<noteq> ''-'' \<Longrightarrow> P s = Inl e \<Longrightarrow>
   \<exists>s0 e0. find (\<lambda>x. x \<noteq> ''-'' \<and> isl (P x)) xs = Some s0
     \<and> s0 \<in> set xs \<and> s0 \<noteq> ''-'' \<and> P s0 = Inl e0"
proof -
  assume a: "s \<in> set xs" "s \<noteq> ''-''" "P s = Inl e"
  then have "find (\<lambda>x. x \<noteq> ''-'' \<and> isl (P x)) xs \<noteq> None"
    by (auto simp: find_None_iff)
  then obtain s0 where f: "find (\<lambda>x. x \<noteq> ''-'' \<and> isl (P x)) xs = Some s0" by auto
  then have "s0 \<in> set xs \<and> s0 \<noteq> ''-'' \<and> isl (P s0)"
    by (auto simp: find_Some_iff)
  moreover then obtain e0 where "P s0 = Inl e0" by (cases "P s0") auto
  ultimately show ?thesis using f by blast
qed

text \<open>
  Claim C6. Let the configured list hold a string that is not \<open>-\<close> and that
  \<^verbatim>\<open>netip.ParsePrefix\<close> rejects. Then \<^verbatim>\<open>run\<close> returns an error before it listens or
  starts a task, and \<^verbatim>\<open>main\<close> writes \<open>error: \<close> and the message to the standard error
  stream and exits with status 1. When the logger was set up, the error is the parse
  error of the first such string.
\<close>

theorem run_rejects_malformed_prefix:
  assumes "s \<in> set negativeAddressFilter" and "s \<noteq> ''-''" and "ParsePrefix env s = Inl e"
  shows "\<exists>e'. run env negativeAddressFilter = ([], Returns (Some e'))
          \<and> main env negativeAddressFilter
              = Returns \<lparr>stderr = ''error: '' @ Error e', status = 1\<rparr>
          \<and> (NewProduction_error env = None \<longrightarrow>
               (\<exists>s0. find (\<lambda>x. x \<noteq> ''-'' \<and> isl (ParsePrefix env x)) negativeAddressFilter
                        = Some s0
                  \<and> ParsePrefix env s0 = Inl e'))"
proof -
  from assms have "\<exists>s0 e0.
      find (\<lambda>x. x \<noteq> ''-'' \<and> isl (ParsePrefix env x)) negativeAddressFilter = Some s0
      \<and> s0 \<in> set negativeAddressFilter \<and> s0 \<noteq> ''-'' \<and> ParsePrefix env s0 = Inl e0"
    by (rule find_malformed)
  then obtain s0 e0 where
    f: "find (\<lambda>x. x \<noteq> ''-'' \<and> isl (ParsePrefix env x)) negativeAddressFilter = Some s0"
    and e0: "ParsePrefix env s0 = Inl e0"
    by blast
  have loop: "parse_loop (ParsePrefix env) negativeAddressFilter [] = Inl e0"
    using parse_loop_find [OF f, of "[]"] e0 by simp
  show ?thesis
  proof (cases "NewProduction_error env")
    case None
    have "run env negativeAddressFilter = ([], Returns (Some e0))"
      using None loop by (simp add: run_def)
    then show ?thesis using f e0 by (simp add: main_def)
  next
    case (Some le)
    have "run env negativeAddressFilter
        = ([], Returns (Some (WrapError ''failed to initialize logger: '' le)))"
      using Some by (simp add: run_def)
    then show ?thesis using Some by (simp add: main_def)
  qed
qed

theorem run_rejects_malformed_prefix_witness:
  "run example_environment [''10.0.0.0/8'', ''-'', ''192.168.0.0'', ''fd00::''] =
     ([], Returns (Some (ErrorString ''netip.ParsePrefix(192.168.0.0): no slash'')))
   \<and> main example_environment [''10.0.0.0/8'', ''-'', ''192.168.0.0'', ''fd00::''] =
     Returns \<lparr>stderr = ''error: netip.ParsePrefix(192.168.0.0): no slash'', status = 1\<rparr>"
  using run_rejects_malformed_prefix [of "''fd00::''"
      "[''10.0.0.0/8'', ''-'', ''192.168.0.0'', ''fd00::'']" example_environment
      "ErrorString ''netip.ParsePrefix(fd00::): no slash''"]
  by (simp add: example_environment_def)

text \<open>
  Claim C7. The loop over the configured list succeeds exactly when every entry other
  than \<open>-\<close> parses, and then the filter holds the parsed prefixes of these entries, in
  their order, and nothing for the entries \<open>-\<close>. The entries \<open>-\<close> are never given to
  the parser: what the parser would answer on \<open>-\<close> has no influence. The adapter is
  built with this filter.
\<close>

theorem negative_filter_skips_dash:
  "(parse_loop P negativeAddressFilter [] = Inr negativeFilter \<longleftrightarrow>
      (\<forall>s\<in>set negativeAddressFilter. s \<noteq> ''-'' \<longrightarrow> (\<exists>p. P s = Inr p))
      \<and> negativeFilter = map (projr \<circ> P) (filter (\<lambda>s. s \<noteq> ''-'') negativeAddressFilter))
   \<and> ((\<forall>s. s \<noteq> ''-'' \<longrightarrow> P s = Q s)
        \<longrightarrow> parse_loop P negativeAddressFilter [] = parse_loop Q negativeAddressFilter [])
   \<and> (\<forall>f. NewAdapter f \<in> set (fst (run env negativeAddressFilter)) \<longrightarrow>
        f = map (projr \<circ> ParsePrefix env) (filter (\<lambda>s. s \<noteq> ''-'') negativeAddressFilter))"
proof (intro conjI allI impI)
  show "parse_loop P negativeAddressFilter [] = Inr negativeFilter \<longleftrightarrow>
      (\<forall>s\<in>set negativeAddressFilter. s \<noteq> ''-'' \<longrightarrow> (\<exists>p. P s = Inr p))
      \<and> negativeFilter = map (projr \<circ> P) (filter (\<lambda>s. s \<noteq> ''-'') negativeAddressFilter)"
    using parse_loop_Inr_iff [of P negativeAddressFilter "[]" negativeFilter] by simp
next
  assume "\<forall>s. s \<noteq> ''-'' \<longrightarrow> P s = Q s"
  then show "parse_loop P negativeAddressFilter [] = parse_loop Q negativeAddressFilter []"
    by (intro parse_loop_cong) simp
next
  fix f
  assume a: "NewAdapter f \<in> set (fst (run env negativeAddressFilter))"
  then obtain nf where nf: "parse_loop (ParsePrefix env) negativeAddressFilter [] = Inr nf"
    and "NewAdapter f \<in> set ([Listen ('':'' @ show_nat (EventsSinkPort env)), NewAdapter nf,
            Go_annotator_Run, Go_Serve, Go_watcher] @ fst (watcher env))"
    by (auto simp: run_def Let_def split: option.splits sum.splits)
  then have "f = nf" by (auto simp: watcher_def split: if_splits)
  then show "f = map (projr \<circ> ParsePrefix env) (filter (\<lambda>s. s \<noteq> ''-'') negativeAddressFilter)"
    using nf parse_loop_Inr_iff [of "ParsePrefix env" negativeAddressFilter "[]" nf] by simp
qed

theorem negative_filter_skips_dash_witness:
  "parse_loop (ParsePrefix example_environment) [''10.0.0.0/8'', ''-'', ''192.168.0.0/16''] []
     = Inr [Prefix [10, 0, 0, 0] 8, Prefix [192, 168, 0, 0] 16]
   \<and> NewAdapter [Prefix [10, 0, 0, 0] 8, Prefix [192, 168, 0, 0] 16]
       \<in> set (fst (run example_environment [''10.0.0.0/8'', ''-'', ''192.168.0.0/16'']))"
  using negative_filter_skips_dash [of "ParsePrefix example_environment"
      "[''10.0.0.0/8'', ''-'', ''192.168.0.0/16'']"
      "[Prefix [10, 0, 0, 0] 8, Prefix [192, 168, 0, 0] 16]"
      "ParsePrefix example_environment" example_environment]
  by (simp add: example_environment_def run_def Let_def watcher_def ctx_Done_def)

subsection \<open>The end of the task group\<close>

lemma final_error_Some_iff:
  "final_error r = Some e \<longleftrightarrow>
     r = Some e \<and> errors_Is e ContextCanceled \<and> \<not> errors_Is e ErrServerStopped"
  by (auto simp: final_error_def split: option.splits if_splits)

text \<open>
  Claim C1. The claim is that \<^verbatim>\<open>run\<close> returns nil when the error of the group is
  \<^verbatim>\<open>grpc.ErrServerStopped\<close> or \<^verbatim>\<open>context.Canceled\<close>, and returns every other error
  of the group. The last condition of \<^verbatim>\<open>run\<close> tests \<^verbatim>\<open>errors.Is(err, context.Canceled)\<close>
  without a negation, and the program does otherwise at three outcomes of the group:
  an error of the annotator that is neither of the two is dropped and \<^verbatim>\<open>run\<close> returns
  nil; the error \<^verbatim>\<open>context.Canceled\<close> is returned by \<^verbatim>\<open>run\<close>; only
  \<^verbatim>\<open>grpc.ErrServerStopped\<close> is suppressed as the claim says.
\<close>

theorem run_final_error_at_outcomes:
  "snd (run (example_environment
         \<lparr>signal := False,
          annotator_Run := Returns (Some (ErrorString ''annotator: store unavailable''))\<rparr>) [])
     = Returns None
   \<and> snd (run (example_environment\<lparr>annotator_Run := Returns (Some ContextCanceled)\<rparr>) [])
     = Returns (Some ContextCanceled)
   \<and> snd (run (example_environment\<lparr>Serve := Returns (Some ErrServerStopped)\<rparr>) [])
     = Returns None"
  by (simp add: run_def example_environment_def Let_def watcher_def ctx_Done_def failed_def
        final_error_def)

subsection \<open>The shutdown watcher\<close>

text \<open>
  Claim C5, as stated, fails: when the signal has arrived, the watcher does not call
  \<^verbatim>\<open>GracefulStop\<close>, and the RPCs in flight are cancelled and do not run to their end.
\<close>

theorem watcher_graceful_stop_counterexample:
  "signal example_environment
   \<and> Call_GracefulStop \<notin> set (fst (watcher example_environment))
   \<and> finished (server_after (fst (watcher example_environment))
        \<lparr>listening = True, active = [1, 2], finished = [], cancelled = []\<rparr>) = []
   \<and> cancelled (server_after (fst (watcher example_environment))
        \<lparr>listening = True, active = [1, 2], finished = [], cancelled = []\<rparr>) = [1, 2]"
  by (simp add: example_environment_def watcher_def ctx_Done_def Stop_def)

text \<open>
  Claim C5, amended. When the signal has arrived, the watcher calls \<^verbatim>\<open>Stop\<close> on the
  server and returns nil: the server stops listening at once and its RPCs in flight are
  cancelled.
\<close>

theorem watcher_stops_server:
  "signal env \<Longrightarrow>
   watcher env = ([Call_Stop], Returns None)
   \<and> server_after (fst (watcher env)) s = Stop s
   \<and> \<not> listening (Stop s) \<and> active (Stop s) = []
   \<and> finished (Stop s) = finished s \<and> cancelled (Stop s) = cancelled s @ active s"
  by (simp add: watcher_def ctx_Done_def Stop_def)

theorem watcher_stops_server_witness:
  "watcher example_environment = ([Call_Stop], Returns None)
   \<and> server_after (fst (watcher example_environment))
        \<lparr>listening = True, active = [1, 2], finished = [], cancelled = []\<rparr>
     = \<lparr>listening = False, active = [], finished = [], cancelled = [1, 2]\<rparr>"
  using watcher_stops_server [of example_environment
      "\<lparr>listening = True, active = [1, 2], finished = [], cancelled = []\<rparr>"]
  by (simp add: example_environment_def Stop_def)

end
